theory Spec2Isabelle
  imports Main "HOL-Library.Word"
begin

section \<open>Data model of \<open>pkg/service/runtime_provider/config_flags.go\<close>\<close>

text \<open>
  A Go \<open>[]byte\<close> is a list of 8-bit words. A Go pointer field \<open>*T\<close> of
  \<open>ConfigFlags\<close> is a \<open>T option\<close>: \<open>None\<close> is the nil pointer, \<open>Some v\<close> a pointer
  to a variable that currently holds \<open>v\<close>. An interface value that may be nil
  (\<open>clientcmd.ClientConfig\<close>, \<open>error\<close>, \<open>genericclioptions.RESTClientGetter\<close>) is an
  option as well. The mutex \<open>lock\<close> has no sequential content and is left out.
  The type \<open>'cc\<close> stands for the non-nil values of \<open>clientcmd.ClientConfig\<close>.
\<close>

type_synonym byte = "8 word"

record 'cc ConfigFlags =
  CacheDir :: "string option"
  KubeConfig :: "string option"
  ClusterName :: "string option"
  AuthInfoName :: "string option"
  Context :: "string option"
  Namespace :: "string option"
  APIServer :: "string option"
  Insecure :: "bool option"
  CertFile :: "string option"
  KeyFile :: "string option"
  CAFile :: "string option"
  BearerToken :: "string option"
  Impersonate :: "string option"
  ImpersonateGroup :: "string list option"
  Username :: "string option"
  Password :: "string option"
  Timeout :: "string option"
  clientConfig :: "'cc option"
  usePersistentConfig :: bool
  CredentialContent :: "byte list"

text \<open>The flag-name constants of the \<open>const\<close> block (lines 42--59).\<close>

definition flagClusterName :: string where "flagClusterName = ''cluster''"
definition flagAuthInfoName :: string where "flagAuthInfoName = ''user''"
definition flagContext :: string where "flagContext = ''context''"
definition flagNamespace :: string where "flagNamespace = ''namespace''"
definition flagAPIServer :: string where "flagAPIServer = ''server''"
definition flagInsecure :: string where "flagInsecure = ''insecure-skip-tls-verify''"
definition flagCertFile :: string where "flagCertFile = ''client-certificate''"
definition flagKeyFile :: string where "flagKeyFile = ''client-key''"
definition flagCAFile :: string where "flagCAFile = ''certificate-authority''"
definition flagBearerToken :: string where "flagBearerToken = ''token''"
definition flagImpersonate :: string where "flagImpersonate = ''as''"
definition flagImpersonateGroup :: string where "flagImpersonateGroup = ''as-group''"
definition flagUsername :: string where "flagUsername = ''username''"
definition flagPassword :: string where "flagPassword = ''password''"
definition flagTimeout :: string where "flagTimeout = ''request-timeout''"
definition flagHTTPCacheDir :: string where "flagHTTPCacheDir = ''cache-dir''"

subsection \<open>Libraries outside the repository\<close>

text \<open>
  The functions of client-go, of Helm's \<open>kube\<close> package and of the Go standard library
  that the file calls are not part of the sources; they are parameters of the model.
  \<open>kube.New\<close>, the typed clients of a client set, the storage drivers and the REST
  mappers only wrap their arguments, so they are free constructors.
\<close>

datatype 'cc KubeClient = kube_New "'cc ConfigFlags option"

datatype 'cs CoreV1Client = CoreV1 'cs

datatype 'cs SecretInterface = Secrets "'cs CoreV1Client" string

datatype 'cs ConfigMapInterface = ConfigMaps "'cs CoreV1Client" string

datatype 'cs Driver =
    NewSecrets "'cs SecretInterface"
  | NewConfigMaps "'cs ConfigMapInterface"
  | NewMemory

datatype 'cs Storage = storage_Init "'cs Driver"

record ('cc, 'err, 'cs) externals =
  HomeDir :: string
  filepath_Join :: "string list \<Rightarrow> string"
  NewClientConfigFromBytes :: "byte list \<Rightarrow> 'cc option \<times> 'err option"
  ClientConfig_Namespace :: "'cc \<Rightarrow> string \<times> bool \<times> 'err option"
  KubernetesClientSet :: "'cc KubeClient \<Rightarrow> 'cs \<times> 'err option"

text \<open>Line 61: \<open>var defaultCacheDir = filepath.Join(homedir.HomeDir(), ".kube", "http-cache")\<close>.\<close>

definition defaultCacheDir :: "('cc, 'err, 'cs) externals \<Rightarrow> string" where
  "defaultCacheDir ext = filepath_Join ext [HomeDir ext, ''.kube'', ''http-cache'']"

section \<open>Constructing the flags record\<close>

definition stringptr :: "string \<Rightarrow> string option" where
  "stringptr val = Some val"

text \<open>
  \<open>NewConfigFlags\<close> (lines 246--271). Fields that the composite literal does not
  mention keep Go's zero value: the nil pointer for \<open>Username\<close> and \<open>Password\<close>, the nil
  interface for \<open>clientConfig\<close>.
\<close>

definition NewConfigFlags ::
  "('cc, 'err, 'cs) externals \<Rightarrow> bool \<Rightarrow> byte list \<Rightarrow> 'cc ConfigFlags" where
  "NewConfigFlags ext usePersistent credentialContent =
     (let impersonateGroup = [];
          insecure = False
      in \<lparr> CacheDir = stringptr (defaultCacheDir ext),
           KubeConfig = stringptr '''',
           ClusterName = stringptr '''',
           AuthInfoName = stringptr '''',
           Context = stringptr '''',
           Namespace = stringptr '''',
           APIServer = stringptr '''',
           Insecure = Some insecure,
           CertFile = stringptr '''',
           KeyFile = stringptr '''',
           CAFile = stringptr '''',
           BearerToken = stringptr '''',
           Impersonate = stringptr '''',
           ImpersonateGroup = Some impersonateGroup,
           Username = None,
           Password = None,
           Timeout = stringptr ''0'',
           clientConfig = None,
           usePersistentConfig = usePersistent,
           CredentialContent = credentialContent \<rparr>)"

section \<open>Binding flags\<close>

text \<open>
  A call on the \<open>pflag.FlagSet\<close> registers one flag. The model records the call as it
  is written in the source: the variable the flag writes to (the field whose pointer
  is passed), the name, the shorthand of \<open>StringVarP\<close>, the default value and the usage
  text. A flag set is the list of the registrations made on it, oldest first.
\<close>

datatype field =
    fKubeConfig | fCacheDir | fCertFile | fKeyFile | fBearerToken | fImpersonate
  | fImpersonateGroup | fUsername | fPassword | fClusterName | fAuthInfoName
  | fNamespace | fContext | fAPIServer | fInsecure | fCAFile | fTimeout

datatype flag =
    StringVar field string string string
  | StringVarP field string string string string
  | BoolVar field string bool string
  | StringArrayVar field string "string list" string

text \<open>\<open>AddFlags\<close> (lines 187--243): one segment per \<open>if\<close> statement, in source order.\<close>

definition AddFlags :: "'cc ConfigFlags \<Rightarrow> flag list \<Rightarrow> flag list" where
  "AddFlags f flags = flags
     @ (if KubeConfig f \<noteq> None
        then [StringVar fKubeConfig ''kubeconfig'' (the (KubeConfig f))
                ''Path to the kubeconfig file to use for CLI requests.'']
        else [])
     @ (if CacheDir f \<noteq> None
        then [StringVar fCacheDir flagHTTPCacheDir (the (CacheDir f))
                ''Default HTTP cache directory'']
        else [])
     @ (if CertFile f \<noteq> None
        then [StringVar fCertFile flagCertFile (the (CertFile f))
                ''Path to a client certificate file for TLS'']
        else [])
     @ (if KeyFile f \<noteq> None
        then [StringVar fKeyFile flagKeyFile (the (KeyFile f))
                ''Path to a client key file for TLS'']
        else [])
     @ (if BearerToken f \<noteq> None
        then [StringVar fBearerToken flagBearerToken (the (BearerToken f))
                ''Bearer token for authentication to the API server'']
        else [])
     @ (if Impersonate f \<noteq> None
        then [StringVar fImpersonate flagImpersonate (the (Impersonate f))
                ''Username to impersonate for the operation'']
        else [])
     @ (if ImpersonateGroup f \<noteq> None
        then [StringArrayVar fImpersonateGroup flagImpersonateGroup (the (ImpersonateGroup f))
                ''Group to impersonate for the operation, this flag can be repeated to specify multiple groups.'']
        else [])
     @ (if Username f \<noteq> None
        then [StringVar fUsername flagUsername (the (Username f))
                ''Username for basic authentication to the API server'']
        else [])
     @ (if Password f \<noteq> None
        then [StringVar fPassword flagPassword (the (Password f))
                ''Password for basic authentication to the API server'']
        else [])
     @ (if ClusterName f \<noteq> None
        then [StringVar fClusterName flagClusterName (the (ClusterName f))
                ''The name of the kubeconfig cluster to use'']
        else [])
     @ (if AuthInfoName f \<noteq> None
        then [StringVar fAuthInfoName flagAuthInfoName (the (AuthInfoName f))
                ''The name of the kubeconfig user to use'']
        else [])
     @ (if Namespace f \<noteq> None
        then [StringVarP fNamespace flagNamespace ''n'' (the (Namespace f))
                ''If present, the namespace scope for this CLI request'']
        else [])
     @ (if Context f \<noteq> None
        then [StringVar fContext flagContext (the (Context f))
                ''The name of the kubeconfig context to use'']
        else [])
     @ (if APIServer f \<noteq> None
        then [StringVarP fAPIServer flagAPIServer ''s'' (the (APIServer f))
                ''The address and port of the Kubernetes API server'']
        else [])
     @ (if Insecure f \<noteq> None
        then [BoolVar fInsecure flagInsecure (the (Insecure f))
                ''If true, the server's certificate will not be checked for validity. This will make your HTTPS connections insecure'']
        else [])
     @ (if CAFile f \<noteq> None
        then [StringVar fCAFile flagCAFile (the (CAFile f))
                ''Path to a cert file for the certificate authority'']
        else [])
     @ (if Timeout f \<noteq> None
        then [StringVar fTimeout flagTimeout (the (Timeout f))
                ''The length of time to wait before giving up on a single server request. Non-zero values should contain a corresponding time unit (e.g. 1s, 2m, 3h). A value of zero means don't timeout requests.'']
        else [])"

section \<open>Client-config loaders\<close>

text \<open>
  \<open>toRawKubeConfigLoader\<close> (lines 120--133) reads no field of its receiver: it asks
  \<open>clientcmd.NewClientConfigFromBytes\<close> for a loader of the empty byte slice and drops
  the error.
\<close>

definition toRawKubeConfigLoader ::
  "('cc, 'err, 'cs) externals \<Rightarrow> 'cc ConfigFlags \<Rightarrow> 'cc option" where
  "toRawKubeConfigLoader ext f =
     (let (clientConfig, _) = NewClientConfigFromBytes ext [] in clientConfig)"

text \<open>
  \<open>toRawKubePersistentConfigLoader\<close> (lines 137--146) writes the field \<open>clientConfig\<close>
  of its pointer receiver; the model returns the receiver after the call.
\<close>

definition toRawKubePersistentConfigLoader ::
  "('cc, 'err, 'cs) externals \<Rightarrow> 'cc ConfigFlags \<Rightarrow> 'cc option \<times> 'cc ConfigFlags" where
  "toRawKubePersistentConfigLoader ext f =
     (let f' = (if clientConfig f = None
                then f\<lparr>clientConfig := toRawKubeConfigLoader ext f\<rparr>
                else f)
      in (clientConfig f', f'))"

definition ToRawKubeConfigLoader ::
  "('cc, 'err, 'cs) externals \<Rightarrow> 'cc ConfigFlags \<Rightarrow> 'cc option \<times> 'cc ConfigFlags" where
  "ToRawKubeConfigLoader ext f =
     (if usePersistentConfig f then toRawKubePersistentConfigLoader ext f
      else (toRawKubeConfigLoader ext f, f))"

section \<open>Discovery client and REST mapper\<close>

text \<open>
  \<open>restmapper.NewDeferredDiscoveryRESTMapper\<close> and \<open>restmapper.NewShortcutExpander\<close>
  store the discovery client they are given; \<open>'dc\<close> stands for the non-nil values of
  \<open>discovery.CachedDiscoveryInterface\<close>.
\<close>

datatype 'dc RESTMapper =
    NewDeferredDiscoveryRESTMapper "'dc option"
  | NewShortcutExpander "'dc RESTMapper" "'dc option"

definition ToDiscoveryClient :: "'cc ConfigFlags \<Rightarrow> 'dc option \<times> 'err option" where
  "ToDiscoveryClient f = (None, None)"

definition ToRESTMapper :: "'cc ConfigFlags \<Rightarrow> 'dc RESTMapper option \<times> 'err option" where
  "ToRESTMapper f =
     (let (discoveryClient, err) = ToDiscoveryClient f
      in if err \<noteq> None then (None, err)
         else (let mapper = NewDeferredDiscoveryRESTMapper discoveryClient;
                   expander = NewShortcutExpander mapper discoveryClient
               in (Some expander, None)))"

section \<open>Process state and the action configuration\<close>

text \<open>
  The package variables \<open>config\<close> and \<open>configOnce\<close> (lines 62--66) and the environment
  of the process. \<open>configOnce\<close> is the \<open>done\<close> flag of the \<open>sync.Once\<close>. The variable
  \<open>config\<close> holds a pointer to the one \<open>ConfigFlags\<close> object that \<open>kubeConfig\<close> allocates;
  the model stores that object in its place, and a call through the pointer that
  writes the object stores the written object back.
\<close>

record 'cc process =
  environ :: "string \<rightharpoonup> string"
  config :: "'cc ConfigFlags option"
  configOnce :: bool

text \<open>\<open>os.Getenv\<close> returns the empty string for a variable that is not set.\<close>

definition os_Getenv :: "'cc process \<Rightarrow> string \<Rightarrow> string" where
  "os_Getenv s key = (case environ s key of None \<Rightarrow> '''' | Some v \<Rightarrow> v)"

text \<open>
  The ways the code ends without returning: \<open>log.Fatal(err)\<close> (prints and exits),
  \<open>panic(msg)\<close>, and the run-time panic of a method call on a nil interface.
\<close>

datatype 'err fatal = LogFatal 'err | Panic string | NilDereference

text \<open>\<open>kubeConfig\<close> (lines 289--294): \<open>configOnce.Do\<close> runs its function when \<open>done\<close> is unset.\<close>

definition kubeConfig ::
  "('cc, 'err, 'cs) externals \<Rightarrow> byte list \<Rightarrow> 'cc process
     \<Rightarrow> 'cc ConfigFlags option \<times> 'cc process" where
  "kubeConfig ext credentialContent s =
     (let s' = (if configOnce s then s
                else s\<lparr>config := Some (NewConfigFlags ext False credentialContent),
                       configOnce := True\<rparr>)
      in (config s', s'))"

text \<open>\<open>getNamespace\<close> (lines 296--301).\<close>

definition getNamespace ::
  "('cc, 'err, 'cs) externals \<Rightarrow> byte list \<Rightarrow> 'cc process
     \<Rightarrow> 'err fatal + string \<times> 'cc process" where
  "getNamespace ext credentialContent s =
     (case kubeConfig ext credentialContent s of
        (None, s1) \<Rightarrow> Inl NilDereference
      | (Some f, s1) \<Rightarrow>
          (case ToRawKubeConfigLoader ext f of
             (None, f') \<Rightarrow> Inl NilDereference
           | (Some loader, f') \<Rightarrow>
               (case ClientConfig_Namespace ext loader of
                  (ns, _, err) \<Rightarrow>
                    if err = None then Inr (ns, s1\<lparr>config := Some f'\<rparr>)
                    else Inr (''default'', s1\<lparr>config := Some f'\<rparr>))))"

record ('cc, 'cs) Configuration =
  RESTClientGetter :: "'cc ConfigFlags option"
  KubeClient :: "'cc KubeClient"
  Releases :: "'cs Storage"
  Log :: "(string \<Rightarrow> unit) option"

text \<open>
  \<open>NewActionConfig\<close> (lines 303--341). \<open>namespace\<close> starts as Go's zero value, the
  empty string, and is assigned only when \<open>allNamespaces\<close> is false.
\<close>

definition NewActionConfig ::
  "('cc, 'err, 'cs) externals \<Rightarrow> bool \<Rightarrow> byte list \<Rightarrow> 'cc process
     \<Rightarrow> 'err fatal + ('cc, 'cs) Configuration \<times> 'cc process" where
  "NewActionConfig ext allNamespaces credentialContent s =
     (let (getter, s1) = kubeConfig ext credentialContent s;
          kc = kube_New getter;
          (clientset, err) = KubernetesClientSet ext kc
      in if err \<noteq> None then Inl (LogFatal (the err))
         else
           (case (if \<not> allNamespaces then getNamespace ext credentialContent s1
                  else Inr ('''', s1)) of
              Inl e \<Rightarrow> Inl e
            | Inr (namespace, s2) \<Rightarrow>
                (let driver = os_Getenv s2 ''HELM_DRIVER'';
                     store =
                       (if driver \<in> {''secret'', ''secrets'', ''''}
                        then Inr (storage_Init (NewSecrets (Secrets (CoreV1 clientset) namespace)))
                        else if driver \<in> {''configmap'', ''configmaps''}
                        then Inr (storage_Init (NewConfigMaps (ConfigMaps (CoreV1 clientset) namespace)))
                        else if driver = ''memory''
                        then Inr (storage_Init NewMemory)
                        else Inl (Panic (''Unknown driver in HELM_DRIVER: '' @ os_Getenv s2 ''HELM_DRIVER'')))
                 in case store of
                      Inl e \<Rightarrow> Inl e
                    | Inr st \<Rightarrow>
                        (let (getter', s3) = kubeConfig ext credentialContent s2
                         in Inr (\<lparr> RESTClientGetter = getter',
                                    KubeClient = kc,
                                    Releases = st,
                                    Log = None \<rparr>, s3)))))"

text \<open>The state of a process that has not yet called \<open>kubeConfig\<close>.\<close>

definition start :: "(string \<rightharpoonup> string) \<Rightarrow> 'cc process" where
  "start env = \<lparr> environ = env, config = None, configOnce = False \<rparr>"

section \<open>Observations used to state the properties\<close>

text \<open>
  What a registration says: the field it is bound to, the name of the flag and its
  default value. \<open>field_pointer\<close> reads the pointer field of a record: \<open>None\<close> for
  nil, the value pointed to otherwise.
\<close>

datatype flag_value = StringValue string | BoolValue bool | StringArrayValue "string list"

fun flag_target :: "flag \<Rightarrow> field" where
  "flag_target (StringVar p n v u) = p"
| "flag_target (StringVarP p n sh v u) = p"
| "flag_target (BoolVar p n v u) = p"
| "flag_target (StringArrayVar p n v u) = p"

fun flag_name :: "flag \<Rightarrow> string" where
  "flag_name (StringVar p n v u) = n"
| "flag_name (StringVarP p n sh v u) = n"
| "flag_name (BoolVar p n v u) = n"
| "flag_name (StringArrayVar p n v u) = n"

fun flag_default :: "flag \<Rightarrow> flag_value" where
  "flag_default (StringVar p n v u) = StringValue v"
| "flag_default (StringVarP p n sh v u) = StringValue v"
| "flag_default (BoolVar p n v u) = BoolValue v"
| "flag_default (StringArrayVar p n v u) = StringArrayValue v"

fun field_pointer :: "'cc ConfigFlags \<Rightarrow> field \<Rightarrow> flag_value option" where
  "field_pointer f fKubeConfig = map_option StringValue (KubeConfig f)"
| "field_pointer f fCacheDir = map_option StringValue (CacheDir f)"
| "field_pointer f fCertFile = map_option StringValue (CertFile f)"
| "field_pointer f fKeyFile = map_option StringValue (KeyFile f)"
| "field_pointer f fBearerToken = map_option StringValue (BearerToken f)"
| "field_pointer f fImpersonate = map_option StringValue (Impersonate f)"
| "field_pointer f fImpersonateGroup = map_option StringArrayValue (ImpersonateGroup f)"
| "field_pointer f fUsername = map_option StringValue (Username f)"
| "field_pointer f fPassword = map_option StringValue (Password f)"
| "field_pointer f fClusterName = map_option StringValue (ClusterName f)"
| "field_pointer f fAuthInfoName = map_option StringValue (AuthInfoName f)"
| "field_pointer f fNamespace = map_option StringValue (Namespace f)"
| "field_pointer f fContext = map_option StringValue (Context f)"
| "field_pointer f fAPIServer = map_option StringValue (APIServer f)"
| "field_pointer f fInsecure = map_option BoolValue (Insecure f)"
| "field_pointer f fCAFile = map_option StringValue (CAFile f)"
| "field_pointer f fTimeout = map_option StringValue (Timeout f)"

text \<open>
  The flag surface as it is documented: \<open>--kubeconfig\<close>, \<open>--cache-dir\<close>,
  \<open>--client-certificate\<close>, \<open>--client-key\<close>, \<open>--token\<close>, \<open>--as\<close>, \<open>--as-group\<close>,
  \<open>--username\<close>, \<open>--password\<close>, \<open>--cluster\<close>, \<open>--user\<close>, \<open>-n/--namespace\<close>,
  \<open>--context\<close>, \<open>-s/--server\<close>, \<open>--insecure-skip-tls-verify\<close>,
  \<open>--certificate-authority\<close>, \<open>--request-timeout\<close>.
\<close>

fun documented_name :: "field \<Rightarrow> string" where
  "documented_name fKubeConfig = ''kubeconfig''"
| "documented_name fCacheDir = ''cache-dir''"
| "documented_name fCertFile = ''client-certificate''"
| "documented_name fKeyFile = ''client-key''"
| "documented_name fBearerToken = ''token''"
| "documented_name fImpersonate = ''as''"
| "documented_name fImpersonateGroup = ''as-group''"
| "documented_name fUsername = ''username''"
| "documented_name fPassword = ''password''"
| "documented_name fClusterName = ''cluster''"
| "documented_name fAuthInfoName = ''user''"
| "documented_name fNamespace = ''namespace''"
| "documented_name fContext = ''context''"
| "documented_name fAPIServer = ''server''"
| "documented_name fInsecure = ''insecure-skip-tls-verify''"
| "documented_name fCAFile = ''certificate-authority''"
| "documented_name fTimeout = ''request-timeout''"

text \<open>The results of a sequence of calls of \<open>kubeConfig\<close>, one per credential argument.\<close>

fun kubeConfig_calls ::
  "('cc, 'err, 'cs) externals \<Rightarrow> byte list list \<Rightarrow> 'cc process
     \<Rightarrow> 'cc ConfigFlags option list \<times> 'cc process" where
  "kubeConfig_calls ext [] s = ([], s)"
| "kubeConfig_calls ext (c # cs) s =
     (let (g, s1) = kubeConfig ext c s;
          (gs, s2) = kubeConfig_calls ext cs s1
      in (g # gs, s2))"

text \<open>The namespace a release store is scoped to; the in-memory driver has none.\<close>

fun storage_namespace :: "'cs Storage \<Rightarrow> string option" where
  "storage_namespace (storage_Init (NewSecrets (Secrets c ns))) = Some ns"
| "storage_namespace (storage_Init (NewConfigMaps (ConfigMaps c ns))) = Some ns"
| "storage_namespace (storage_Init NewMemory) = None"

subsection \<open>Concrete instances\<close>

text \<open>
  The zero value \<open>ConfigFlags{}\<close>, and one instance of the library parameters: a loader
  is the byte slice it was built from, its \<open>Namespace\<close> reports an error for the empty
  slice, and the client set is always available.
\<close>

definition nil_flags :: "byte list ConfigFlags" where
  "nil_flags = \<lparr> CacheDir = None, KubeConfig = None, ClusterName = None, AuthInfoName = None,
      Context = None, Namespace = None, APIServer = None, Insecure = None, CertFile = None,
      KeyFile = None, CAFile = None, BearerToken = None, Impersonate = None,
      ImpersonateGroup = None, Username = None, Password = None, Timeout = None,
      clientConfig = None, usePersistentConfig = False, CredentialContent = [] \<rparr>"

definition demo_ext :: "(byte list, string, nat) externals" where
  "demo_ext = \<lparr> HomeDir = ''/home/helm'',
      filepath_Join = (\<lambda>xs. foldr (\<lambda>x acc. if acc = [] then x else x @ ''/'' @ acc) xs []),
      NewClientConfigFromBytes = (\<lambda>b. (Some b, None)),
      ClientConfig_Namespace =
        (\<lambda>cc. if cc = [] then ('''', False, Some ''invalid configuration'')
              else (''prod'', False, None)),
      KubernetesClientSet = (\<lambda>kc. (7, None)) \<rparr>"

definition demo_flags :: "byte list \<Rightarrow> byte list ConfigFlags" where
  "demo_flags c = NewConfigFlags demo_ext False c"

definition demo_process :: "(string \<rightharpoonup> string) \<Rightarrow> byte list \<Rightarrow> byte list process" where
  "demo_process env c = \<lparr> environ = env, config = Some (demo_flags c), configOnce = True \<rparr>"


section \<open>Auxiliary facts\<close>

lemmas flag_names =
  flagClusterName_def flagAuthInfoName_def flagContext_def flagNamespace_def
  flagAPIServer_def flagInsecure_def flagCertFile_def flagKeyFile_def flagCAFile_def
  flagBearerToken_def flagImpersonate_def flagImpersonateGroup_def flagUsername_def
  flagPassword_def flagTimeout_def flagHTTPCacheDir_def

lemma filter_if_single:
  "filter P (if b then [x] else []) = (if b \<and> P x then [x] else [])"
  by (cases b) simp_all

lemma AddFlags_append: "AddFlags f flags = flags @ AddFlags f []"
  unfolding AddFlags_def by (simp only: append_Nil)

lemma AddFlags_select:
  "(case field_pointer f fld of
      None \<Rightarrow> filter (\<lambda>r. flag_target r = fld \<or> flag_name r = documented_name fld) (AddFlags f []) = []
    | Some v \<Rightarrow> (\<exists>r. filter (\<lambda>r. flag_target r = fld \<or> flag_name r = documented_name fld) (AddFlags f []) = [r]
         \<and> flag_target r = fld \<and> flag_name r = documented_name fld \<and> flag_default r = v))"
  apply (cases fld)
  apply (simp_all split: option.splits)
  apply (simp_all add: AddFlags_def flag_names filter_if_single split del: if_split)
  done

lemma AddFlags_all_nil:
  "(\<forall>fld. field_pointer f fld = None) \<Longrightarrow> AddFlags f flags = flags"
proof -
  assume a: "\<forall>fld. field_pointer f fld = None"
  have "KubeConfig f = None" using a[rule_format, of fKubeConfig] by simp
  moreover have "CacheDir f = None" using a[rule_format, of fCacheDir] by simp
  moreover have "CertFile f = None" using a[rule_format, of fCertFile] by simp
  moreover have "KeyFile f = None" using a[rule_format, of fKeyFile] by simp
  moreover have "BearerToken f = None" using a[rule_format, of fBearerToken] by simp
  moreover have "Impersonate f = None" using a[rule_format, of fImpersonate] by simp
  moreover have "ImpersonateGroup f = None" using a[rule_format, of fImpersonateGroup] by simp
  moreover have "Username f = None" using a[rule_format, of fUsername] by simp
  moreover have "Password f = None" using a[rule_format, of fPassword] by simp
  moreover have "ClusterName f = None" using a[rule_format, of fClusterName] by simp
  moreover have "AuthInfoName f = None" using a[rule_format, of fAuthInfoName] by simp
  moreover have "Namespace f = None" using a[rule_format, of fNamespace] by simp
  moreover have "Context f = None" using a[rule_format, of fContext] by simp
  moreover have "APIServer f = None" using a[rule_format, of fAPIServer] by simp
  moreover have "Insecure f = None" using a[rule_format, of fInsecure] by simp
  moreover have "CAFile f = None" using a[rule_format, of fCAFile] by simp
  moreover have "Timeout f = None" using a[rule_format, of fTimeout] by simp
  ultimately show ?thesis by (simp add: AddFlags_def)
qed


lemma os_Getenv_cong: "environ s' = environ s \<Longrightarrow> os_Getenv s' k = os_Getenv s k"
  by (simp add: os_Getenv_def)

lemma kubeConfig_environ: "kubeConfig ext c s = (g, s1) \<Longrightarrow> environ s1 = environ s"
  by (auto simp: kubeConfig_def Let_def split: if_splits)

lemma getNamespace_environ:
  "getNamespace ext c s = Inr (ns, s2) \<Longrightarrow> environ s2 = environ s"
  by (auto simp: getNamespace_def kubeConfig_def Let_def split: prod.splits option.splits if_splits)

lemma kubeConfig_done: "kubeConfig ext c s = (g, s1) \<Longrightarrow> configOnce s1"
  by (auto simp: kubeConfig_def Let_def split: if_splits)

lemma kubeConfig_idle: "configOnce s \<Longrightarrow> kubeConfig ext c s = (config s, s)"
  by (simp add: kubeConfig_def)

lemma getNamespace_done:
  "getNamespace ext c s = Inr (ns, s2) \<Longrightarrow> configOnce s2"
  by (auto simp: getNamespace_def kubeConfig_def Let_def split: prod.splits option.splits if_splits)

text \<open>What \<open>NewActionConfig\<close> does once the client set is there and the namespace is known.\<close>

lemma NewActionConfig_after_namespace:
  assumes k: "kubeConfig ext cred s = (getter, s1)"
    and cs: "KubernetesClientSet ext (kube_New getter) = (clientset, None)"
    and ns: "(if allNamespaces then Inr ('''', s1) else getNamespace ext cred s1) = Inr (namespace, s2)"
  shows "NewActionConfig ext allNamespaces cred s =
     (if os_Getenv s ''HELM_DRIVER'' \<in> {''secret'', ''secrets'', ''''}
      then Inr (\<lparr> RESTClientGetter = config s2, KubeClient = kube_New getter,
                   Releases = storage_Init (NewSecrets (Secrets (CoreV1 clientset) namespace)),
                   Log = None \<rparr>, s2)
      else if os_Getenv s ''HELM_DRIVER'' \<in> {''configmap'', ''configmaps''}
      then Inr (\<lparr> RESTClientGetter = config s2, KubeClient = kube_New getter,
                   Releases = storage_Init (NewConfigMaps (ConfigMaps (CoreV1 clientset) namespace)),
                   Log = None \<rparr>, s2)
      else if os_Getenv s ''HELM_DRIVER'' = ''memory''
      then Inr (\<lparr> RESTClientGetter = config s2, KubeClient = kube_New getter,
                   Releases = storage_Init NewMemory, Log = None \<rparr>, s2)
      else Inl (Panic (''Unknown driver in HELM_DRIVER: '' @ os_Getenv s ''HELM_DRIVER'')))"
proof -
  have d1: "configOnce s1" using k by (rule kubeConfig_done)
  have e1: "environ s1 = environ s" using k by (rule kubeConfig_environ)
  have d2: "configOnce s2" and e2: "environ s2 = environ s1"
    using ns d1 getNamespace_done[of ext cred s1 namespace s2]
      getNamespace_environ[of ext cred s1 namespace s2]
    by (auto split: if_splits)
  have g: "os_Getenv s2 ''HELM_DRIVER'' = os_Getenv s ''HELM_DRIVER''"
    using e1 e2 by (simp add: os_Getenv_def)
  have k2: "kubeConfig ext cred s2 = (config s2, s2)" using d2 by (rule kubeConfig_idle)
  have ns': "(if \<not> allNamespaces then getNamespace ext cred s1 else Inr ('''', s1)) = Inr (namespace, s2)"
    using ns by (simp split: if_splits)
  show ?thesis
    unfolding NewActionConfig_def k Let_def prod.case cs ns' sum.case g k2
    by simp
qed

lemma kubeConfig_calls_idle:
  "configOnce s \<Longrightarrow> kubeConfig_calls ext cs s = (replicate (length cs) (config s), s)"
  by (induction cs) (simp_all add: kubeConfig_idle)

lemma kubeConfig_ignores_loader:
  "kubeConfig (ext\<lparr>NewClientConfigFromBytes := ncc, ClientConfig_Namespace := nsf\<rparr>) cred s
     = kubeConfig ext cred s"
  by (simp add: kubeConfig_def NewConfigFlags_def defaultCacheDir_def)

lemma NewConfigFlags_usePersistentConfig [simp]:
  "usePersistentConfig (NewConfigFlags ext p c) = p"
  by (simp add: NewConfigFlags_def)

lemma ToRawKubeConfigLoader_fresh:
  "\<not> usePersistentConfig f \<Longrightarrow>
     ToRawKubeConfigLoader ext f = (fst (NewClientConfigFromBytes ext []), f)"
  by (simp add: ToRawKubeConfigLoader_def toRawKubeConfigLoader_def split: prod.splits)

lemma getNamespace_keeps_state:
  assumes "configOnce s" and "config s = Some f" and "\<not> usePersistentConfig f"
    and "getNamespace ext c s = Inr (ns, s2)"
  shows "s2 = s"
  using assms
  by (auto simp: getNamespace_def kubeConfig_idle ToRawKubeConfigLoader_fresh
      split: option.splits prod.splits if_splits)

lemma NewActionConfig_getter:
  assumes once: "configOnce s" and cfg: "config s = Some f" and np: "\<not> usePersistentConfig f"
    and ret: "NewActionConfig ext a c s = Inr (r, s')"
  shows "RESTClientGetter r = Some f \<and> s' = s"
proof -
  have k: "kubeConfig ext c s = (Some f, s)" using once cfg by (simp add: kubeConfig_idle)
  obtain clientset err where cs: "KubernetesClientSet ext (kube_New (Some f)) = (clientset, err)"
    by (cases "KubernetesClientSet ext (kube_New (Some f))")
  have err: "err = None"
    using ret by (cases err) (simp_all add: NewActionConfig_def k cs)
  obtain namespace s2 where
    ns: "(if a then Inr ('''', s) else getNamespace ext c s) = Inr (namespace, s2)"
    using ret by (cases "if a then Inr ('''', s) else getNamespace ext c s")
      (auto simp: NewActionConfig_def k cs err split: if_splits)
  have s2: "s2 = s"
    using ns getNamespace_keeps_state[OF once cfg np, of ext c namespace s2]
    by (auto split: if_splits)
  show ?thesis
    using NewActionConfig_after_namespace[OF k cs[unfolded err] ns] ret cfg
    by (auto simp: s2 split: if_splits)
qed

section \<open>The properties\<close>

text \<open>
  Claim C1. Whenever \<open>HELM_DRIVER\<close> holds a value other than \<open>secret\<close>, \<open>secrets\<close>, the
  empty string, \<open>configmap\<close>, \<open>configmaps\<close> and \<open>memory\<close>, \<open>NewActionConfig\<close> ends in
  \<open>log.Fatal\<close> or a panic for every \<open>allNamespaces\<close>, every credential and every
  state: it returns no configuration.
\<close>

theorem NewActionConfig_unknown_driver:
  assumes drv: "os_Getenv s ''HELM_DRIVER'' \<notin>
      {''secret'', ''secrets'', '''', ''configmap'', ''configmaps'', ''memory''}"
  shows "\<exists>e. NewActionConfig ext allNamespaces cred s = Inl e"
proof -
  obtain getter s1 where k: "kubeConfig ext cred s = (getter, s1)" by (cases "kubeConfig ext cred s")
  obtain clientset err where cs: "KubernetesClientSet ext (kube_New getter) = (clientset, err)"
    by (cases "KubernetesClientSet ext (kube_New getter)")
  show ?thesis
  proof (cases err)
    case (Some e)
    then show ?thesis by (simp add: NewActionConfig_def k cs)
  next
    case None
    show ?thesis
    proof (cases "if allNamespaces then Inr ('''', s1) else getNamespace ext cred s1")
      case (Inl e)
      then show ?thesis
        by (auto simp: NewActionConfig_def k cs None split: if_splits)
    next
      case (Inr p)
      obtain namespace s2 where p: "p = (namespace, s2)" by (cases p)
      show ?thesis
        using NewActionConfig_after_namespace[OF k cs[unfolded None] Inr[unfolded p]] drv
        by simp
    qed
  qed
qed


theorem NewActionConfig_unknown_driver_witness:
  "os_Getenv (start [''HELM_DRIVER'' \<mapsto> ''bogus''] :: byte list process) ''HELM_DRIVER'' \<notin>
      {''secret'', ''secrets'', '''', ''configmap'', ''configmaps'', ''memory''}
   \<and> (\<exists>e. NewActionConfig demo_ext False [] (start [''HELM_DRIVER'' \<mapsto> ''bogus'']) = Inl e)"
proof -
  have h: "os_Getenv (start [''HELM_DRIVER'' \<mapsto> ''bogus''] :: byte list process) ''HELM_DRIVER'' \<notin>
      {''secret'', ''secrets'', '''', ''configmap'', ''configmaps'', ''memory''}"
    by (simp add: os_Getenv_def start_def)
  from NewActionConfig_unknown_driver[OF h, where ext = demo_ext and allNamespaces = False
      and cred = "[]"] h
  show ?thesis by simp
qed

text \<open>
  Claim C2. The loader is constructed at most once. In a process that starts with the
  guard unset, the first call of \<open>kubeConfig\<close> builds the loader from its own
  credential argument, and every later call, whatever its argument, returns that
  loader and leaves the state as it is. In any state with the guard set a call
  returns the stored loader unchanged, the guard is set after every call, and a call
  of \<open>NewActionConfig\<close> that returns hands out the stored loader as well.
\<close>

theorem kubeConfig_initialized_once:
  "kubeConfig_calls ext (c # cs) (start env) =
      (replicate (Suc (length cs)) (Some (NewConfigFlags ext False c)),
       \<lparr> environ = env, config = Some (NewConfigFlags ext False c), configOnce = True \<rparr>)
   \<and> (configOnce s \<longrightarrow> kubeConfig ext c' s = (config s, s))
   \<and> configOnce (snd (kubeConfig ext c' s))
   \<and> (NewActionConfig ext a c'
         \<lparr> environ = env, config = Some (NewConfigFlags ext False c), configOnce = True \<rparr>
          = Inr (r, s') \<longrightarrow> RESTClientGetter r = Some (NewConfigFlags ext False c))"
proof -
  let ?s1 = "\<lparr> environ = env, config = Some (NewConfigFlags ext False c), configOnce = True \<rparr>"
  have first: "kubeConfig ext c (start env) = (Some (NewConfigFlags ext False c), ?s1)"
    by (simp add: kubeConfig_def start_def)
  have rest: "kubeConfig_calls ext cs ?s1 = (replicate (length cs) (config ?s1), ?s1)"
    by (rule kubeConfig_calls_idle) simp
  have calls: "kubeConfig_calls ext (c # cs) (start env) =
      (replicate (Suc (length cs)) (Some (NewConfigFlags ext False c)), ?s1)"
    by (simp add: first rest)
  have after: "configOnce (snd (kubeConfig ext c' s))"
    by (simp add: kubeConfig_def)
  have getter: "RESTClientGetter r = Some (NewConfigFlags ext False c)"
    if "NewActionConfig ext a c' ?s1 = Inr (r, s')"
    using NewActionConfig_getter[of ?s1 "NewConfigFlags ext False c" ext a c' r s'] that
    by simp
  from calls after getter show ?thesis by (simp add: kubeConfig_idle)
qed

theorem kubeConfig_initialized_once_witness:
  "kubeConfig_calls demo_ext [[1], [2], [3]] (start Map.empty) =
      ([Some (demo_flags [1]), Some (demo_flags [1]), Some (demo_flags [1])],
       demo_process Map.empty [1])
   \<and> configOnce (demo_process Map.empty [1])
   \<and> kubeConfig demo_ext [9] (demo_process Map.empty [1]) =
       (Some (demo_flags [1]), demo_process Map.empty [1])
   \<and> (\<exists>r. NewActionConfig demo_ext True [9] (demo_process Map.empty [1]) =
            Inr (r, demo_process Map.empty [1])
          \<and> RESTClientGetter r = Some (demo_flags [1]))"
proof -
  have ret: "\<exists>r. NewActionConfig demo_ext True [9] (demo_process Map.empty [1]) =
      Inr (r, demo_process Map.empty [1])"
    by (simp add: NewActionConfig_def kubeConfig_def os_Getenv_def demo_process_def demo_ext_def)
  then obtain r where r: "NewActionConfig demo_ext True [9] (demo_process Map.empty [1]) =
      Inr (r, demo_process Map.empty [1])" ..
  from kubeConfig_initialized_once[where ext = demo_ext and c = "[1]" and cs = "[[2], [3]]"
      and env = Map.empty and s = "demo_process Map.empty [1]" and c' = "[9]" and a = True
      and r = r and s' = "demo_process Map.empty [1]"] r
  show ?thesis by (simp add: demo_process_def demo_flags_def)
qed

text \<open>
  Claim C3. For a record with \<open>usePersistentConfig\<close> false, \<open>ToRawKubeConfigLoader\<close>
  returns the loader that \<open>clientcmd.NewClientConfigFromBytes\<close> builds from the empty
  byte slice and caches nothing in the record. No field of the record is read: any
  two such records get the same loader, which is also the loader of the record of
  defaults with empty credentials.
\<close>

theorem ToRawKubeConfigLoader_non_persistent:
  assumes "\<not> usePersistentConfig f" and "\<not> usePersistentConfig g"
  shows "ToRawKubeConfigLoader ext f = (fst (NewClientConfigFromBytes ext []), f)
     \<and> fst (ToRawKubeConfigLoader ext g) = fst (ToRawKubeConfigLoader ext f)
     \<and> fst (ToRawKubeConfigLoader ext f) = fst (ToRawKubeConfigLoader ext (NewConfigFlags ext False []))"
  using assms by (simp add: ToRawKubeConfigLoader_fresh)

theorem ToRawKubeConfigLoader_non_persistent_witness:
  "\<not> usePersistentConfig ((demo_flags [1, 2, 3])\<lparr>Namespace := Some ''prod''\<rparr>)
   \<and> \<not> usePersistentConfig nil_flags
   \<and> ToRawKubeConfigLoader demo_ext ((demo_flags [1, 2, 3])\<lparr>Namespace := Some ''prod''\<rparr>) =
       (Some [], (demo_flags [1, 2, 3])\<lparr>Namespace := Some ''prod''\<rparr>)
   \<and> fst (ToRawKubeConfigLoader demo_ext nil_flags) = Some []
   \<and> fst (ToRawKubeConfigLoader demo_ext (NewConfigFlags demo_ext False [])) = Some []"
proof -
  have f: "\<not> usePersistentConfig ((demo_flags [1, 2, 3])\<lparr>Namespace := Some ''prod''\<rparr>)"
    by (simp add: demo_flags_def)
  have g: "\<not> usePersistentConfig nil_flags"
    by (simp add: nil_flags_def)
  have e: "fst (NewClientConfigFromBytes demo_ext []) = Some []"
    by (simp add: demo_ext_def)
  note t = ToRawKubeConfigLoader_non_persistent[OF f g, of demo_ext]
  from t e have a: "ToRawKubeConfigLoader demo_ext ((demo_flags [1, 2, 3])\<lparr>Namespace := Some ''prod''\<rparr>) =
       (Some [], (demo_flags [1, 2, 3])\<lparr>Namespace := Some ''prod''\<rparr>)"
    by simp
  from t a have b: "fst (ToRawKubeConfigLoader demo_ext nil_flags) = Some []"
    by simp
  from t[THEN conjunct2, THEN conjunct2, symmetric] a
  have c: "fst (ToRawKubeConfigLoader demo_ext (NewConfigFlags demo_ext False [])) = Some []"
    by simp
  from f g a b c show ?thesis by simp
qed

text \<open>
  Claim C4. \<open>getNamespace\<close> returns \<open>default\<close> when the loader's \<open>Namespace\<close> reports an
  error, whatever the error is, and the loader's namespace when it reports none. The
  error does not leave the function: the result is a string, and the function never
  ends in \<open>log.Fatal\<close>.
\<close>

theorem getNamespace_default_on_error:
  assumes "kubeConfig ext cred s = (Some f, s1)"
    and "ToRawKubeConfigLoader ext f = (Some loader, f')"
    and "ClientConfig_Namespace ext loader = (ns, ov, err)"
  shows "getNamespace ext cred s =
           Inr (if err = None then ns else ''default'', s1\<lparr>config := Some f'\<rparr>)
     \<and> (\<forall>e. getNamespace ext cred s \<noteq> Inl (LogFatal e))"
  using assms by (simp add: getNamespace_def)

theorem getNamespace_default_on_error_witness:
  "kubeConfig demo_ext [1] (start Map.empty) = (Some (demo_flags [1]), demo_process Map.empty [1])
   \<and> ToRawKubeConfigLoader demo_ext (demo_flags [1]) = (Some [], demo_flags [1])
   \<and> ClientConfig_Namespace demo_ext [] = ('''', False, Some ''invalid configuration'')
   \<and> getNamespace demo_ext [1] (start Map.empty) = Inr (''default'', demo_process Map.empty [1])"
proof -
  have h1: "kubeConfig demo_ext [1] (start Map.empty) =
      (Some (demo_flags [1]), demo_process Map.empty [1])"
    by (simp add: kubeConfig_def start_def demo_flags_def demo_process_def)
  have h2: "ToRawKubeConfigLoader demo_ext (demo_flags [1]) = (Some [], demo_flags [1])"
    by (simp add: ToRawKubeConfigLoader_fresh demo_flags_def) (simp add: demo_ext_def)
  have h3: "ClientConfig_Namespace demo_ext [] = ('''', False, Some ''invalid configuration'')"
    by (simp add: demo_ext_def)
  from getNamespace_default_on_error[OF h1 h2 h3] h1 h2 h3
  show ?thesis by (simp add: demo_process_def)
qed







text \<open>
  Claim C7. With \<open>allNamespaces\<close> true, a returned configuration has a store scoped to
  the empty namespace (the in-memory store has no scope), and the state is the one
  left by the first \<open>kubeConfig\<close> call. \<open>getNamespace\<close> is not called: replacing the
  loader constructor and the loader's \<open>Namespace\<close> by any other functions leaves the
  result of \<open>NewActionConfig\<close> as it is.
\<close>

theorem NewActionConfig_allNamespaces:
  assumes "os_Getenv s ''HELM_DRIVER'' \<in>
      {''secret'', ''secrets'', '''', ''configmap'', ''configmaps'', ''memory''}"
    and "kubeConfig ext cred s = (getter, s1)"
    and "KubernetesClientSet ext (kube_New getter) = (clientset, None)"
  shows "(\<exists>cfg. NewActionConfig ext True cred s = Inr (cfg, s1)
       \<and> storage_namespace (Releases cfg) =
           (if os_Getenv s ''HELM_DRIVER'' = ''memory'' then None else Some ''''))
     \<and> NewActionConfig (ext\<lparr>NewClientConfigFromBytes := ncc, ClientConfig_Namespace := nsf\<rparr>) True cred s
         = NewActionConfig ext True cred s"
proof -
  have a: "(if True then Inr ('''', s1) else getNamespace ext cred s1) = Inr ('''', s1)" by simp
  have 1: "\<exists>cfg. NewActionConfig ext True cred s = Inr (cfg, s1)
       \<and> storage_namespace (Releases cfg) =
           (if os_Getenv s ''HELM_DRIVER'' = ''memory'' then None else Some '''')"
    using NewActionConfig_after_namespace[OF assms(2,3) a] assms(1) by auto
  have 2: "NewActionConfig (ext\<lparr>NewClientConfigFromBytes := ncc, ClientConfig_Namespace := nsf\<rparr>) True cred s
         = NewActionConfig ext True cred s"
    unfolding NewActionConfig_def kubeConfig_ignores_loader
    by (simp add: Let_def split: prod.splits)
  from 1 2 show ?thesis by simp
qed

theorem NewActionConfig_allNamespaces_witness:
  "os_Getenv (start [''HELM_DRIVER'' \<mapsto> ''configmaps''] :: byte list process) ''HELM_DRIVER'' \<in>
      {''secret'', ''secrets'', '''', ''configmap'', ''configmaps'', ''memory''}
   \<and> kubeConfig demo_ext [4] (start [''HELM_DRIVER'' \<mapsto> ''configmaps'']) =
        (Some (demo_flags [4]), demo_process [''HELM_DRIVER'' \<mapsto> ''configmaps''] [4])
   \<and> KubernetesClientSet demo_ext (kube_New (Some (demo_flags [4]))) = (7, None)
   \<and> (\<exists>cfg. NewActionConfig demo_ext True [4] (start [''HELM_DRIVER'' \<mapsto> ''configmaps'']) =
          Inr (cfg, demo_process [''HELM_DRIVER'' \<mapsto> ''configmaps''] [4])
        \<and> storage_namespace (Releases cfg) = Some '''')
   \<and> NewActionConfig
        (demo_ext\<lparr>NewClientConfigFromBytes := (\<lambda>b. (None, Some ''no loader'')),
                   ClientConfig_Namespace := (\<lambda>cc. (''prod'', False, None))\<rparr>)
        True [4] (start [''HELM_DRIVER'' \<mapsto> ''configmaps''])
       = NewActionConfig demo_ext True [4] (start [''HELM_DRIVER'' \<mapsto> ''configmaps''])"
proof -
  let ?env = "[''HELM_DRIVER'' \<mapsto> ''configmaps'']"
  have h1: "os_Getenv (start ?env :: byte list process) ''HELM_DRIVER'' \<in>
      {''secret'', ''secrets'', '''', ''configmap'', ''configmaps'', ''memory''}"
    by (simp add: os_Getenv_def start_def)
  have v: "os_Getenv (start ?env :: byte list process) ''HELM_DRIVER'' \<noteq> ''memory''"
    by (simp add: os_Getenv_def start_def)
  have h2: "kubeConfig demo_ext [4] (start ?env) = (Some (demo_flags [4]), demo_process ?env [4])"
    by (simp add: kubeConfig_def start_def demo_flags_def demo_process_def)
  have h3: "KubernetesClientSet demo_ext (kube_New (Some (demo_flags [4]))) = (7, None)"
    by (simp add: demo_ext_def)
  from NewActionConfig_allNamespaces[OF h1 h2 h3,
      where ncc = "\<lambda>b. (None, Some ''no loader'')" and nsf = "\<lambda>cc. (''prod'', False, None)"]
    h1 h2 h3 v
  show ?thesis by simp
qed

text \<open>
  Claim C8. \<open>AddFlags\<close> registers a flag for a field exactly when the field's pointer is
  not nil. With every pointer nil the flag set is left as it was. The flags already
  in the set are kept and the new ones follow them. For each field, the registrations
  that are bound to the field or carry its documented name are none when the pointer
  is nil, and otherwise exactly one, bound to the field, with the documented name and
  with the value the pointer points to as default.
\<close>

theorem AddFlags_registers_non_nil_fields:
  "((\<forall>fld. field_pointer f fld = None) \<longrightarrow> AddFlags f flags = flags)
   \<and> AddFlags f flags = flags @ AddFlags f []
   \<and> (case field_pointer f fld of
        None \<Rightarrow>
          filter (\<lambda>r. flag_target r = fld \<or> flag_name r = documented_name fld) (AddFlags f []) = []
      | Some v \<Rightarrow>
          (\<exists>r. filter (\<lambda>r. flag_target r = fld \<or> flag_name r = documented_name fld)
                  (AddFlags f []) = [r]
             \<and> flag_target r = fld \<and> flag_name r = documented_name fld \<and> flag_default r = v))"
  using AddFlags_all_nil[where f = f and flags = flags] AddFlags_append[where f = f and flags = flags]
    AddFlags_select[where f = f and fld = fld]
  by blast

theorem AddFlags_registers_non_nil_fields_witness:
  "(\<forall>fld. field_pointer nil_flags fld = None)
   \<and> AddFlags nil_flags [] = []
   \<and> field_pointer (demo_flags []) fTimeout = Some (StringValue ''0'')
   \<and> (\<exists>r. filter (\<lambda>r. flag_target r = fTimeout \<or> flag_name r = ''request-timeout'')
             (AddFlags (demo_flags []) []) = [r]
        \<and> flag_target r = fTimeout \<and> flag_name r = ''request-timeout''
        \<and> flag_default r = StringValue ''0'')
   \<and> field_pointer (demo_flags []) fPassword = None
   \<and> filter (\<lambda>r. flag_target r = fPassword \<or> flag_name r = ''password'')
        (AddFlags (demo_flags []) []) = []"
proof -
  have nil: "\<forall>fld. field_pointer nil_flags fld = None"
  proof
    fix fld show "field_pointer nil_flags fld = None"
      by (cases fld) (simp_all add: nil_flags_def)
  qed
  have t: "field_pointer (demo_flags []) fTimeout = Some (StringValue ''0'')"
    by (simp add: demo_flags_def NewConfigFlags_def stringptr_def)
  have p: "field_pointer (demo_flags []) fPassword = None"
    by (simp add: demo_flags_def NewConfigFlags_def)
  from AddFlags_registers_non_nil_fields[of nil_flags "[]" fTimeout]
    AddFlags_registers_non_nil_fields[of "demo_flags []" "[]" fTimeout]
    AddFlags_registers_non_nil_fields[of "demo_flags []" "[]" fPassword]
    nil t p
  show ?thesis by simp
qed

text \<open>
  Claim C9, as stated: every optional string field other than \<open>Timeout\<close> and \<open>CacheDir\<close>
  points to the empty string, so that no optional field is nil. The composite literal
  of \<open>NewConfigFlags\<close> does not mention \<open>Username\<close> and \<open>Password\<close>: both are nil.
\<close>

theorem NewConfigFlags_Username_Password_nil:
  "Username (NewConfigFlags demo_ext False []) \<noteq> Some ''''
   \<and> Password (NewConfigFlags demo_ext False []) \<noteq> Some ''''
   \<and> Username (NewConfigFlags demo_ext False []) = None
   \<and> Password (NewConfigFlags demo_ext False []) = None"
  by (simp add: NewConfigFlags_def)

text \<open>
  Claim C9, amended. \<open>NewConfigFlags\<close> returns a record with \<open>Insecure\<close> pointing to
  false, \<open>Timeout\<close> to \<open>0\<close>, \<open>CacheDir\<close> to the join of the home directory, \<open>.kube\<close> and
  \<open>http-cache\<close>, \<open>ImpersonateGroup\<close> to the empty list, and every other optional string
  field to the empty string, except \<open>Username\<close> and \<open>Password\<close>, which are nil. The
  cached loader is nil and the two arguments are stored as given.
\<close>

theorem NewConfigFlags_defaults:
  "Insecure (NewConfigFlags ext p c) = Some False
   \<and> Timeout (NewConfigFlags ext p c) = Some ''0''
   \<and> CacheDir (NewConfigFlags ext p c) =
       Some (filepath_Join ext [HomeDir ext, ''.kube'', ''http-cache''])
   \<and> KubeConfig (NewConfigFlags ext p c) = Some ''''
   \<and> ClusterName (NewConfigFlags ext p c) = Some ''''
   \<and> AuthInfoName (NewConfigFlags ext p c) = Some ''''
   \<and> Context (NewConfigFlags ext p c) = Some ''''
   \<and> Namespace (NewConfigFlags ext p c) = Some ''''
   \<and> APIServer (NewConfigFlags ext p c) = Some ''''
   \<and> CertFile (NewConfigFlags ext p c) = Some ''''
   \<and> KeyFile (NewConfigFlags ext p c) = Some ''''
   \<and> CAFile (NewConfigFlags ext p c) = Some ''''
   \<and> BearerToken (NewConfigFlags ext p c) = Some ''''
   \<and> Impersonate (NewConfigFlags ext p c) = Some ''''
   \<and> ImpersonateGroup (NewConfigFlags ext p c) = Some []
   \<and> Username (NewConfigFlags ext p c) = None
   \<and> Password (NewConfigFlags ext p c) = None
   \<and> clientConfig (NewConfigFlags ext p c) = None
   \<and> usePersistentConfig (NewConfigFlags ext p c) = p
   \<and> CredentialContent (NewConfigFlags ext p c) = c"
  by (simp add: NewConfigFlags_def stringptr_def defaultCacheDir_def)

text \<open>
  Claim C10. For every record, \<open>ToDiscoveryClient\<close> returns a nil client and a nil
  error, and \<open>ToRESTMapper\<close> returns, with a nil error, the shortcut expander over the
  deferred discovery mapper, both built over the nil client.
\<close>

theorem ToDiscoveryClient_nil:
  "(ToDiscoveryClient f :: 'dc option \<times> 'err option) = (None, None)
   \<and> (ToRESTMapper f :: 'dc RESTMapper option \<times> 'err option) =
       (Some (NewShortcutExpander (NewDeferredDiscoveryRESTMapper None) None), None)"
  by (simp add: ToDiscoveryClient_def ToRESTMapper_def)

end
